theory Spec2Isabelle
  imports Main "HOL-Library.Word"
begin

section \<open>JavaScript strings\<close>

text \<open>
  A JavaScript string is a sequence of UTF-16 code units. The ASCII literals of
  \<^verbatim>\<open>App.tsx\<close> are written with \<open>js\<close>; the one non-ASCII character of the
  source (the em dash of the default prompt) is given by its code unit.
\<close>

type_synonym jsstring = "16 word list"

definition jschar :: "char \<Rightarrow> 16 word" where
  "jschar c = of_char c"

definition js :: "string \<Rightarrow> jsstring" where
  "js s = map jschar s"

text \<open>
  \<^verbatim>\<open>String.prototype.trim\<close> removes the code units of the ECMAScript productions
  WhiteSpace and LineTerminator from both ends.
\<close>

definition isWhiteSpace :: "16 word \<Rightarrow> bool" where
  "isWhiteSpace c =
     (c \<in> set [0x0009, 0x000A, 0x000B, 0x000C, 0x000D, 0x0020, 0x00A0, 0x1680,
                0x2028, 0x2029, 0x202F, 0x205F, 0x3000, 0xFEFF]
      \<or> (0x2000 \<le> c \<and> c \<le> 0x200A))"

definition trim :: "jsstring \<Rightarrow> jsstring" where
  "trim s = rev (dropWhile isWhiteSpace (rev (dropWhile isWhiteSpace s)))"

text \<open>
  \<^verbatim>\<open>s.split(sep)\<close> with a one-character separator: the pieces between the
  occurrences of the separator, in order; a string without the separator is the
  only piece. \<open>split_from\<close> scans the string with the piece read so far.
\<close>

fun split_from :: "'a \<Rightarrow> 'a list \<Rightarrow> 'a list \<Rightarrow> 'a list list" where
  "split_from sep piece [] = [piece]"
| "split_from sep piece (c # cs) =
     (if c = sep then piece # split_from sep [] cs
      else split_from sep (piece @ [c]) cs)"

definition split :: "'a \<Rightarrow> 'a list \<Rightarrow> 'a list list" where
  "split sep s = split_from sep [] s"

text \<open>Reading an array at an index: \<^verbatim>\<open>undefined\<close> (here \<open>None\<close>) out of range.\<close>

definition at_index :: "'a list \<Rightarrow> nat \<Rightarrow> 'a option" where
  "at_index xs i = (if i < length xs then Some (xs ! i) else None)"

text \<open>\<^verbatim>\<open>s.indexOf(c)\<close>: the first position of \<open>c\<close>, or \<open>-1\<close>.\<close>

fun indexOf :: "'a list \<Rightarrow> 'a \<Rightarrow> int" where
  "indexOf [] c = -1"
| "indexOf (x # xs) c =
     (if x = c then 0
      else (let i = indexOf xs c in if i < 0 then -1 else i + 1))"

text \<open>
  \<^verbatim>\<open>s.substring(a, b)\<close>: both indices are clamped to the string, then swapped
  when the first is the larger.
\<close>

definition substring :: "'a list \<Rightarrow> int \<Rightarrow> int \<Rightarrow> 'a list" where
  "substring s a b =
     (let len = int (length s);
          a' = min (max a 0) len;
          b' = min (max b 0) len;
          from = min a' b';
          to = max a' b'
      in take (nat (to - from)) (drop (nat from) s))"

section \<open>Values and collaborators\<close>

text \<open>
  What a rejected promise carries, as far as the handlers look at it:
  \<^verbatim>\<open>e instanceof Error\<close> and, then, \<^verbatim>\<open>e.message\<close>. A value that is not an
  instance of \<^verbatim>\<open>Error\<close> (a thrown string, a plain object, the event passed to
  \<^verbatim>\<open>reader.onerror\<close>) is \<open>NonError\<close>, with the text it carries when it has one.
\<close>

datatype js_thrown = ErrorInstance jsstring | NonError "jsstring option"

record image_asset =
  dataUrl :: jsstring
  mimeType :: jsstring

record js_blob =
  blob_type :: jsstring
  blob_bytes :: "8 word list"

record js_file =
  file_name :: jsstring
  file_type :: jsstring
  file_parts :: "js_blob list"

record js_response =
  ok :: bool
  blob :: "js_thrown + js_blob"

text \<open>The argument list of \<^verbatim>\<open>editImageWithPrompt\<close>, imported from the Gemini service.\<close>

record edit_request =
  base64ImageData :: "jsstring option"
  imageMimeType :: jsstring
  editPrompt :: jsstring

text \<open>
  The collaborators are parameters of the handlers: \<open>reader\<close> is what
  \<^verbatim>\<open>FileReader.readAsDataURL\<close> ends with for a file (\<open>Inr\<close> the result passed to
  \<^verbatim>\<open>onload\<close>, \<open>Inl\<close> the event passed to \<^verbatim>\<open>onerror\<close>), \<open>fetch\<close> is the browser's
  \<^verbatim>\<open>fetch\<close>, and \<open>editImageWithPrompt\<close> is the Gemini service. Each settles with
  \<open>Inr\<close> a value or \<open>Inl\<close> the rejection; a promise that never settles resumes no
  handler and is outside the traces below.
\<close>

type_synonym file_reader = "js_file \<Rightarrow> js_thrown + jsstring"
type_synonym fetcher = "jsstring \<Rightarrow> js_thrown + js_response"
type_synonym edit_service = "edit_request \<Rightarrow> js_thrown + jsstring"

section \<open>Image codec helpers\<close>

definition fileToBase64 :: "file_reader \<Rightarrow> js_file \<Rightarrow> js_thrown + image_asset" where
  "fileToBase64 reader file =
     (case reader file of
        Inr result \<Rightarrow>
          Inr \<lparr>dataUrl = result,
               mimeType = substring result (indexOf result (jschar CHR '':'') + 1)
                                           (indexOf result (jschar CHR '';''))\<rparr>
      | Inl err \<Rightarrow> Inl err)"

definition urlToDataUrl :: "fetcher \<Rightarrow> file_reader \<Rightarrow> jsstring \<Rightarrow> js_thrown + image_asset" where
  "urlToDataUrl fetch reader url =
     (case fetch url of
        Inl err \<Rightarrow> Inl err
      | Inr response \<Rightarrow>
          if \<not> ok response
          then Inl (ErrorInstance (js ''Failed to fetch image from '' @ url))
          else (case blob response of
                  Inl err \<Rightarrow> Inl err
                | Inr b \<Rightarrow>
                    fileToBase64 reader
                      \<lparr>file_name = js ''initial-image.jpeg'', file_type = blob_type b,
                       file_parts = [b]\<rparr>))"

text \<open>
  What \<^verbatim>\<open>FileReader.readAsDataURL\<close> passes to \<^verbatim>\<open>onload\<close>: the scheme, the media
  type of the file, the base64 marker, and the base64 encoding of its bytes. The
  original image is only ever stored from such a result (by \<open>loadInitialImage\<close>
  and by \<open>handleImageUpload\<close>, both through \<open>fileToBase64\<close>).
\<close>

definition base64Alphabet :: jsstring where
  "base64Alphabet = js ''ABCDEFGHIJKLMNOPQRSTUVWXYZabcdefghijklmnopqrstuvwxyz0123456789+/=''"

definition isBase64 :: "jsstring \<Rightarrow> bool" where
  "isBase64 b = list_all (\<lambda>c. c \<in> set base64Alphabet) b"

definition readAsDataURL_result :: "jsstring \<Rightarrow> jsstring \<Rightarrow> jsstring" where
  "readAsDataURL_result mediaType b = js ''data:'' @ mediaType @ js '';base64,'' @ b"

section \<open>Application state\<close>

record app_state =
  originalImage :: "image_asset option"
  editedImage :: "jsstring option"
  prompt :: jsstring
  aspectRatio :: jsstring
  isLoading :: bool
  error :: "jsstring option"

text \<open>The arguments of the \<^verbatim>\<open>useState\<close> calls: the state of the first render.\<close>

definition defaultPrompt :: jsstring where
  "defaultPrompt =
     js ''Replace the background of the image without altering the product or its packaging. Place the product centered on a wooden countertop or table, as if it is resting naturally on it. The new background should be a softly blurred warehouse or stockroom environment, with warm, realistic lighting and depth of field. Do not modify, crop, or distort the product or its packaging ''
     @ [0x2014]
     @ js '' keep colors, proportions, and textures exactly as in the original image. Ensure the product and packaging are sharp and in focus, while the background remains softly blurred. Maintain a professional, clean, and realistic photographic look suitable for e-commerce product display.''"

definition initialState :: app_state where
  "initialState =
     \<lparr>originalImage = None, editedImage = None, prompt = defaultPrompt,
      aspectRatio = js ''original'', isLoading = True, error = None\<rparr>"

definition initialImageUrl :: jsstring where
  "initialImageUrl = js ''https://i.imgur.com/gK6nJ4P.jpeg''"

section \<open>Effects of a handler\<close>

text \<open>
  A handler is a sequence of state-setter calls around one \<^verbatim>\<open>await\<close>. Its model
  is the list of its effects in program order: the setter calls, the awaited
  request, and the console log. \<open>run\<close> applies the setters to a state.
\<close>

datatype request =
    UrlToDataUrl jsstring
  | FileToBase64 js_file
  | EditImageWithPrompt edit_request

datatype effect =
    SetOriginalImage "image_asset option"
  | SetEditedImage "jsstring option"
  | SetIsLoading bool
  | SetError "jsstring option"
  | Await request
  | ConsoleError

fun apply_effect :: "app_state \<Rightarrow> effect \<Rightarrow> app_state" where
  "apply_effect s (SetOriginalImage v) = s\<lparr>originalImage := v\<rparr>"
| "apply_effect s (SetEditedImage v) = s\<lparr>editedImage := v\<rparr>"
| "apply_effect s (SetIsLoading v) = s\<lparr>isLoading := v\<rparr>"
| "apply_effect s (SetError v) = s\<lparr>error := v\<rparr>"
| "apply_effect s (Await r) = s"
| "apply_effect s ConsoleError = s"

definition run :: "app_state \<Rightarrow> effect list \<Rightarrow> app_state" where
  "run s es = foldl apply_effect s es"

fun is_await :: "effect \<Rightarrow> bool" where
  "is_await (Await r) = True"
| "is_await e = False"

text \<open>The requests a trace makes, and the part of a trace before its first request.\<close>

fun requests :: "effect list \<Rightarrow> request list" where
  "requests [] = []"
| "requests (Await r # es) = r # requests es"
| "requests (e # es) = requests es"

definition before_await :: "effect list \<Rightarrow> effect list" where
  "before_await es = takeWhile (\<lambda>e. \<not> is_await e) es"

fun edit_requests :: "effect list \<Rightarrow> edit_request list" where
  "edit_requests [] = []"
| "edit_requests (Await (EditImageWithPrompt r) # es) = r # edit_requests es"
| "edit_requests (e # es) = edit_requests es"

section \<open>The three workflows\<close>

definition loadInitialImage :: "fetcher \<Rightarrow> file_reader \<Rightarrow> effect list" where
  "loadInitialImage fetch reader =
     [SetError None, SetIsLoading True, Await (UrlToDataUrl initialImageUrl)]
     @ (case urlToDataUrl fetch reader initialImageUrl of
          Inr imageData \<Rightarrow> [SetOriginalImage (Some imageData)]
        | Inl e \<Rightarrow>
            [ConsoleError,
             SetError (Some (js ''Could not load the initial example image. Please try uploading your own.''))])
     @ [SetIsLoading False]"

text \<open>
  The change event of the file input, as far as the handler reads it:
  \<^verbatim>\<open>event.target.files\<close> is a list of files or null.
\<close>

record change_event =
  target_files :: "js_file list option"

definition selected_file :: "change_event \<Rightarrow> js_file option" where
  "selected_file event =
     (case target_files event of
        None \<Rightarrow> None
      | Some fs \<Rightarrow> at_index fs 0)"

definition handleImageUpload :: "file_reader \<Rightarrow> change_event \<Rightarrow> effect list" where
  "handleImageUpload reader event =
     (case selected_file event of
        None \<Rightarrow> []
      | Some file \<Rightarrow>
          [SetIsLoading True, SetError None, SetEditedImage None, Await (FileToBase64 file)]
          @ (case fileToBase64 reader file of
               Inr img \<Rightarrow> [SetOriginalImage (Some \<lparr>dataUrl = dataUrl img, mimeType = mimeType img\<rparr>)]
             | Inl e \<Rightarrow> [SetError (Some (js ''Failed to read the image file.'')), ConsoleError])
          @ [SetIsLoading False])"

definition validationMessage :: jsstring where
  "validationMessage = js ''Please upload an image and provide a prompt.''"

definition finalPrompt :: "app_state \<Rightarrow> jsstring" where
  "finalPrompt s =
     (if aspectRatio s \<noteq> js ''original''
      then trim (prompt s) @ js '' Please ensure the final image composition is suitable for a ''
           @ aspectRatio s @ js '' aspect ratio.''
      else prompt s)"

definition errorMessage :: "js_thrown \<Rightarrow> jsstring" where
  "errorMessage e =
     (case e of
        ErrorInstance message \<Rightarrow> message
      | NonError _ \<Rightarrow> js ''An unknown error occurred.'')"

definition handleGenerate :: "edit_service \<Rightarrow> app_state \<Rightarrow> effect list" where
  "handleGenerate editImageWithPrompt s =
     (case originalImage s of
        None \<Rightarrow> [SetError (Some validationMessage)]
      | Some img \<Rightarrow>
          if prompt s = [] then [SetError (Some validationMessage)]
          else
            (let base64Data = at_index (split (jschar CHR '','') (dataUrl img)) 1;
                 req = \<lparr>base64ImageData = base64Data, imageMimeType = mimeType img,
                        editPrompt = finalPrompt s\<rparr>
             in [SetIsLoading True, SetError None, SetEditedImage None,
                 Await (EditImageWithPrompt req)]
                @ (case editImageWithPrompt req of
                     Inr newImageBase64 \<Rightarrow>
                       [SetEditedImage (Some (js ''data:image/png;base64,'' @ newImageBase64))]
                   | Inl e \<Rightarrow>
                       [SetError (Some (js ''Generation failed: '' @ errorMessage e)),
                        ConsoleError])
                @ [SetIsLoading False]))"

text \<open>
  The arguments \<open>handleGenerate\<close> passes to the service for a stored image, named
  for the statements below.
\<close>

definition generateRequest :: "image_asset \<Rightarrow> app_state \<Rightarrow> edit_request" where
  "generateRequest img s =
     \<lparr>base64ImageData = at_index (split (jschar CHR '','') (dataUrl img)) 1,
      imageMimeType = mimeType img, editPrompt = finalPrompt s\<rparr>"

section \<open>Notions of the specification\<close>

text \<open>
  The entire substring of a string after its first comma (empty when it has no
  comma): what the specification calls the payload of a data URL.
\<close>

definition afterFirstComma :: "jsstring \<Rightarrow> jsstring" where
  "afterFirstComma s = drop 1 (dropWhile (\<lambda>c. c \<noteq> jschar CHR '','') s)"

text \<open>
  The shape the specification gives every workflow, read on its trace from a state
  \<open>s\<close>: there is an awaited request; before the first one the error has been
  cleared and \<open>isLoading\<close> set; the last effect sets \<open>isLoading\<close> to false.
\<close>

definition workflow_shape :: "app_state \<Rightarrow> effect list \<Rightarrow> bool" where
  "workflow_shape s t =
     (requests t \<noteq> []
      \<and> SetError None \<in> set (before_await t)
      \<and> SetIsLoading True \<in> set (before_await t)
      \<and> error (run s (before_await t)) = None
      \<and> isLoading (run s (before_await t)) = True
      \<and> last t = SetIsLoading False
      \<and> isLoading (run s t) = False)"

section \<open>Sample inputs\<close>

text \<open>Collaborators that settle the same way whatever they are asked.\<close>

definition resolveWith :: "'b \<Rightarrow> 'a \<Rightarrow> js_thrown + 'b" where
  "resolveWith v x = Inr v"

definition rejectWith :: "js_thrown \<Rightarrow> 'a \<Rightarrow> js_thrown + 'b" where
  "rejectWith e x = Inl e"

text \<open>A state in which an image is loaded and no workflow is in flight.\<close>

definition sampleImage :: image_asset where
  "sampleImage = \<lparr>dataUrl = js ''data:image/png;base64,QUJD'', mimeType = js ''image/png''\<rparr>"

definition readyState :: app_state where
  "readyState =
     \<lparr>originalImage = Some sampleImage, editedImage = Some (js ''data:image/png;base64,T0xE''),
      prompt = js ''  a beach at dusk '', aspectRatio = js ''4:5'', isLoading = False,
      error = Some (js ''Generation failed: old'')\<rparr>"

text \<open>
  A fetch that rejects (the network is down), a fetch that resolves with a response
  that is not ok, and a reader that ends in \<^verbatim>\<open>onerror\<close>.
\<close>

definition failingFetch :: fetcher where
  "failingFetch = rejectWith (ErrorInstance (js ''Failed to fetch''))"

definition notFoundFetch :: fetcher where
  "notFoundFetch =
     resolveWith \<lparr>ok = False, blob = Inr \<lparr>blob_type = js ''text/html'', blob_bytes = []\<rparr>\<rparr>"

definition failingReader :: file_reader where
  "failingReader = rejectWith (NonError None)"

definition sampleFile :: js_file where
  "sampleFile = \<lparr>file_name = js ''p.png'', file_type = js ''image/png'', file_parts = []\<rparr>"

section \<open>Running a trace\<close>

lemma run_Nil: "run s [] = s"
  by (simp add: run_def)

lemma run_Cons: "run s (e # es) = run (apply_effect s e) es"
  by (simp add: run_def)

lemma run_append: "run s (es @ fs) = run (run s es) fs"
  by (simp add: run_def)

lemma requests_append: "requests (es @ fs) = requests es @ requests fs"
  by (induction es rule: requests.induct) auto

lemma js_eq_Nil: "js s = [] \<longleftrightarrow> s = []"
  by (simp add: js_def)

section \<open>The generate workflow: validation\<close>

lemma handleGenerate_invalid:
  "originalImage s = None \<or> prompt s = [] \<Longrightarrow>
   handleGenerate svc s = [SetError (Some validationMessage)]"
  by (auto simp: handleGenerate_def split: option.splits)

lemma handleGenerate_valid:
  assumes "originalImage s = Some img" and "prompt s \<noteq> []"
  shows "handleGenerate svc s =
     [SetIsLoading True, SetError None, SetEditedImage None,
      Await (EditImageWithPrompt (generateRequest img s))]
     @ (case svc (generateRequest img s) of
          Inr b \<Rightarrow> [SetEditedImage (Some (js ''data:image/png;base64,'' @ b))]
        | Inl e \<Rightarrow> [SetError (Some (js ''Generation failed: '' @ errorMessage e)), ConsoleError])
     @ [SetIsLoading False]"
  using assms by (simp add: handleGenerate_def generateRequest_def Let_def)

lemma edit_requests_handleGenerate:
  "edit_requests (handleGenerate svc s) =
     (case originalImage s of
        None \<Rightarrow> []
      | Some img \<Rightarrow> if prompt s = [] then [] else [generateRequest img s])"
proof (cases "originalImage s")
  case None
  then show ?thesis by (simp add: handleGenerate_invalid)
next
  case (Some img)
  show ?thesis
  proof (cases "prompt s = []")
    case True
    then show ?thesis using Some by (simp add: handleGenerate_invalid)
  next
    case False
    then show ?thesis using Some
      by (simp add: handleGenerate_valid split: sum.splits)
  qed
qed

lemma edit_requests_single:
  assumes "edit_requests (handleGenerate svc s) = [req]"
  obtains img where "originalImage s = Some img" and "prompt s \<noteq> []"
    and "req = generateRequest img s"
  using assms unfolding edit_requests_handleGenerate
  by (auto split: option.splits if_splits)

text \<open>
  C1, as the code has it: when the original image is absent or the prompt is empty,
  \<open>handleGenerate\<close> stores the validation message, makes no request at all, and
  leaves \<open>isLoading\<close> as it was (so false when it was false).
\<close>

theorem handleGenerate_validation_error:
  assumes "originalImage s = None \<or> prompt s = []"
  shows "error (run s (handleGenerate svc s)) = Some validationMessage
       \<and> requests (handleGenerate svc s) = []
       \<and> isLoading (run s (handleGenerate svc s)) = isLoading s"
  using assms by (simp add: handleGenerate_invalid run_Nil run_Cons)

theorem handleGenerate_validation_error_witness:
  "(originalImage (readyState\<lparr>prompt := []\<rparr>) = None \<or> prompt (readyState\<lparr>prompt := []\<rparr>) = [])
   \<and> error (run (readyState\<lparr>prompt := []\<rparr>)
              (handleGenerate (resolveWith (js ''Zm9v'')) (readyState\<lparr>prompt := []\<rparr>)))
       = Some (js ''Please upload an image and provide a prompt.'')
   \<and> requests (handleGenerate (resolveWith (js ''Zm9v'')) (readyState\<lparr>prompt := []\<rparr>)) = []
   \<and> isLoading (run (readyState\<lparr>prompt := []\<rparr>)
                 (handleGenerate (resolveWith (js ''Zm9v'')) (readyState\<lparr>prompt := []\<rparr>)))
       = False"
  using handleGenerate_validation_error
          [of "readyState\<lparr>prompt := []\<rparr>" "resolveWith (js ''Zm9v'')"]
  by (simp add: readyState_def validationMessage_def)

text \<open>
  C1, as stated, fails in the state of the first render: no image is loaded yet and
  \<open>isLoading\<close> is true, and \<open>handleGenerate\<close> leaves it true.
\<close>

theorem handleGenerate_validation_isLoading_counterexample:
  "originalImage initialState = None
   \<and> isLoading (run initialState (handleGenerate (resolveWith (js ''Zm9v'')) initialState))
       \<noteq> False"
  by (simp add: initialState_def handleGenerate_def run_def)

text \<open>
  C9: when validation fails, the state after \<open>handleGenerate\<close> is the state before
  with only \<open>error\<close> replaced; the edited image, the original image, the prompt,
  the aspect ratio and \<open>isLoading\<close> keep their values.
\<close>

theorem handleGenerate_validation_frame:
  assumes "originalImage s = None \<or> prompt s = []"
  shows "run s (handleGenerate svc s) = s\<lparr>error := Some validationMessage\<rparr>
       \<and> editedImage (run s (handleGenerate svc s)) = editedImage s
       \<and> originalImage (run s (handleGenerate svc s)) = originalImage s
       \<and> prompt (run s (handleGenerate svc s)) = prompt s
       \<and> aspectRatio (run s (handleGenerate svc s)) = aspectRatio s
       \<and> isLoading (run s (handleGenerate svc s)) = isLoading s"
  using assms by (simp add: handleGenerate_invalid run_Nil run_Cons)

theorem handleGenerate_validation_frame_witness:
  "(originalImage (readyState\<lparr>originalImage := None\<rparr>) = None
      \<or> prompt (readyState\<lparr>originalImage := None\<rparr>) = [])
   \<and> run (readyState\<lparr>originalImage := None\<rparr>)
          (handleGenerate (resolveWith (js ''Zm9v'')) (readyState\<lparr>originalImage := None\<rparr>))
       = readyState\<lparr>originalImage := None, error := Some validationMessage\<rparr>
   \<and> editedImage (run (readyState\<lparr>originalImage := None\<rparr>)
          (handleGenerate (resolveWith (js ''Zm9v'')) (readyState\<lparr>originalImage := None\<rparr>)))
       = Some (js ''data:image/png;base64,T0xE'')"
  using handleGenerate_validation_frame
          [of "readyState\<lparr>originalImage := None\<rparr>" "resolveWith (js ''Zm9v'')"]
  by (simp add: readyState_def)

section \<open>The upload workflow: no file selected\<close>

lemma selected_file_None:
  "target_files event = None \<or> target_files event = Some [] \<Longrightarrow> selected_file event = None"
  by (auto simp: selected_file_def at_index_def)

lemma selected_file_Some:
  "target_files event = Some (file # others) \<Longrightarrow> selected_file event = Some file"
  by (simp add: selected_file_def at_index_def)

text \<open>
  C10: when the change event carries no file (the file list is null or empty),
  \<open>handleImageUpload\<close> has no effect: the state is unchanged and no file read is
  requested.
\<close>

theorem handleImageUpload_no_file:
  assumes "target_files event = None \<or> target_files event = Some []"
  shows "handleImageUpload reader event = []
       \<and> run s (handleImageUpload reader event) = s
       \<and> requests (handleImageUpload reader event) = []"
  using assms by (simp add: handleImageUpload_def selected_file_None run_Nil)

theorem handleImageUpload_no_file_witness:
  "(target_files \<lparr>target_files = Some []\<rparr> = None
      \<or> target_files \<lparr>target_files = Some []\<rparr> = Some [])
   \<and> run readyState
         (handleImageUpload (resolveWith (js ''data:image/png;base64,QUJD''))
            \<lparr>target_files = Some []\<rparr>) = readyState
   \<and> requests (handleImageUpload (resolveWith (js ''data:image/png;base64,QUJD''))
                  \<lparr>target_files = Some []\<rparr>) = []"
  using handleImageUpload_no_file
          [of "\<lparr>target_files = Some []\<rparr>" "resolveWith (js ''data:image/png;base64,QUJD'')"
              readyState]
  by (simp add: run_Nil)

section \<open>The generate workflow: what is sent\<close>

text \<open>
  C2: when \<open>handleGenerate\<close> passes validation it sends exactly one prompt: the
  stored prompt itself when the aspect ratio is "original", and otherwise the
  trimmed prompt, one space, and the clause naming the aspect ratio (so for each
  of 1:1, 9:16 and 4:5).
\<close>

theorem handleGenerate_sent_prompt:
  assumes "originalImage s = Some img" and "prompt s \<noteq> []"
  shows "map editPrompt (edit_requests (handleGenerate svc s)) =
     [if aspectRatio s = js ''original'' then prompt s
      else trim (prompt s) @ js '' Please ensure the final image composition is suitable for a ''
           @ aspectRatio s @ js '' aspect ratio.'']"
  using assms by (simp add: edit_requests_handleGenerate generateRequest_def finalPrompt_def)

theorem handleGenerate_sent_prompt_witness:
  "originalImage readyState = Some sampleImage \<and> prompt readyState \<noteq> []
   \<and> map editPrompt (edit_requests (handleGenerate (resolveWith (js ''Zm9v'')) readyState)) =
       [js ''a beach at dusk Please ensure the final image composition is suitable for a 4:5 aspect ratio.'']
   \<and> map editPrompt (edit_requests (handleGenerate (resolveWith (js ''Zm9v''))
                                        (readyState\<lparr>aspectRatio := js ''original''\<rparr>))) =
       [js ''  a beach at dusk '']"
  using handleGenerate_sent_prompt [of readyState sampleImage "resolveWith (js ''Zm9v'')"]
        handleGenerate_sent_prompt [of "readyState\<lparr>aspectRatio := js ''original''\<rparr>" sampleImage
                                       "resolveWith (js ''Zm9v'')"]
  by (simp add: readyState_def js_def jschar_def trim_def isWhiteSpace_def)

subsection \<open>The payload\<close>

lemma split_from_eq:
  "split_from sep piece s =
     (piece @ takeWhile (\<lambda>c. c \<noteq> sep) s)
     # (if sep \<in> set s then split_from sep [] (drop 1 (dropWhile (\<lambda>c. c \<noteq> sep) s)) else [])"
  by (induction s arbitrary: piece) auto

lemma split_second:
  "at_index (split sep s) 1 =
     (if sep \<in> set s
      then Some (takeWhile (\<lambda>c. c \<noteq> sep) (drop 1 (dropWhile (\<lambda>c. c \<noteq> sep) s)))
      else None)"
proof (cases "sep \<in> set s")
  case True
  let ?r = "drop 1 (dropWhile (\<lambda>c. c \<noteq> sep) s)"
  have "split sep s = takeWhile (\<lambda>c. c \<noteq> sep) s # split_from sep [] ?r"
    unfolding split_def using True by (subst split_from_eq) simp
  moreover have "split_from sep [] ?r = takeWhile (\<lambda>c. c \<noteq> sep) ?r
      # (if sep \<in> set ?r then split_from sep [] (drop 1 (dropWhile (\<lambda>c. c \<noteq> sep) ?r)) else [])"
    by (subst split_from_eq) simp
  ultimately show ?thesis using True by (simp add: at_index_def)
next
  case False
  have "split sep s = [takeWhile (\<lambda>c. c \<noteq> sep) s]"
    unfolding split_def using False by (subst split_from_eq) simp
  then show ?thesis using False by (simp add: at_index_def)
qed

lemma takeWhile_all: "sep \<notin> set r \<Longrightarrow> takeWhile (\<lambda>c. c \<noteq> sep) r = r"
  by (induction r) auto

lemma dropWhile_to_sep:
  "sep \<notin> set pre \<Longrightarrow> dropWhile (\<lambda>c. c \<noteq> sep) (pre @ sep # rest) = sep # rest"
  by (induction pre) auto

lemma comma_not_base64: "isBase64 b \<Longrightarrow> jschar CHR '','' \<notin> set b"
proof -
  have "jschar CHR '','' \<notin> set base64Alphabet"
    by (simp add: base64Alphabet_def js_def jschar_def)
  then show "isBase64 b \<Longrightarrow> jschar CHR '','' \<notin> set b"
    by (auto simp: isBase64_def list_all_iff)
qed

lemma afterFirstComma_readAsDataURL_result:
  assumes "jschar CHR '','' \<notin> set mediaType"
  shows "afterFirstComma (readAsDataURL_result mediaType b) = b"
proof -
  let ?pre = "js ''data:'' @ mediaType @ js '';base64''"
  have pre: "jschar CHR '','' \<notin> set ?pre"
    using assms by (simp add: js_def jschar_def)
  have "readAsDataURL_result mediaType b = ?pre @ jschar CHR '','' # b"
    by (simp add: readAsDataURL_result_def js_def)
  then show ?thesis
    unfolding afterFirstComma_def using dropWhile_to_sep [OF pre, of b] by simp
qed

lemma comma_in_readAsDataURL_result:
  "jschar CHR '','' \<in> set (readAsDataURL_result mediaType b)"
  by (simp add: readAsDataURL_result_def js_def)

text \<open>A stored image carries the reader's result as its data URL.\<close>

lemma fileToBase64_dataUrl:
  "fileToBase64 reader file = Inr img \<Longrightarrow> reader file = Inr (dataUrl img)"
  by (auto simp: fileToBase64_def split: sum.splits)

text \<open>
  C4: for every stored original-image data URL, that is one of the form that
  \<^verbatim>\<open>FileReader.readAsDataURL\<close> produces (a media type without a comma, the base64
  marker, base64 text), the payload \<open>handleGenerate\<close> passes to the service is the
  entire substring of the data URL after its first comma, which is the base64
  text.
\<close>

theorem handleGenerate_payload:
  assumes "originalImage s = Some img" and "prompt s \<noteq> []"
    and "dataUrl img = readAsDataURL_result mediaType b"
    and "jschar CHR '','' \<notin> set mediaType" and "isBase64 b"
  shows "map base64ImageData (edit_requests (handleGenerate svc s)) =
           [Some (afterFirstComma (dataUrl img))]
       \<and> afterFirstComma (dataUrl img) = b"
proof -
  have rest: "afterFirstComma (dataUrl img) = b"
    using assms(3,4) by (simp add: afterFirstComma_readAsDataURL_result)
  have "jschar CHR '','' \<notin> set b"
    using assms(5) by (rule comma_not_base64)
  then have whole: "takeWhile (\<lambda>c. c \<noteq> jschar CHR '','') (afterFirstComma (dataUrl img))
                      = afterFirstComma (dataUrl img)"
    unfolding rest by (rule takeWhile_all)
  have comma: "jschar CHR '','' \<in> set (dataUrl img)"
    using assms(3) by (simp add: comma_in_readAsDataURL_result)
  have "map base64ImageData (edit_requests (handleGenerate svc s)) =
          [at_index (split (jschar CHR '','') (dataUrl img)) 1]"
    using assms(1,2) by (simp add: edit_requests_handleGenerate generateRequest_def)
  also have "at_index (split (jschar CHR '','') (dataUrl img)) 1 =
          Some (takeWhile (\<lambda>c. c \<noteq> jschar CHR '','') (afterFirstComma (dataUrl img)))"
    unfolding split_second afterFirstComma_def using comma by simp
  finally show ?thesis using whole rest by simp
qed

theorem handleGenerate_payload_witness:
  "originalImage readyState = Some sampleImage \<and> prompt readyState \<noteq> []
   \<and> dataUrl sampleImage = readAsDataURL_result (js ''image/png'') (js ''QUJD'')
   \<and> jschar CHR '','' \<notin> set (js ''image/png'') \<and> isBase64 (js ''QUJD'')
   \<and> map base64ImageData (edit_requests (handleGenerate (resolveWith (js ''Zm9v'')) readyState))
       = [Some (js ''QUJD'')]"
proof -
  have h: "originalImage readyState = Some sampleImage" "prompt readyState \<noteq> []"
    by (simp_all add: readyState_def js_eq_Nil)
  have u: "dataUrl sampleImage = readAsDataURL_result (js ''image/png'') (js ''QUJD'')"
    by (simp add: sampleImage_def readAsDataURL_result_def js_def)
  have m: "jschar CHR '','' \<notin> set (js ''image/png'')"
    by (simp add: js_def jschar_def)
  have b: "isBase64 (js ''QUJD'')"
    by (simp add: isBase64_def base64Alphabet_def js_def jschar_def)
  from handleGenerate_payload [OF h u m b, of "resolveWith (js ''Zm9v'')"]
  have "map base64ImageData (edit_requests (handleGenerate (resolveWith (js ''Zm9v'')) readyState))
       = [Some (js ''QUJD'')]" by simp
  with h u m b show ?thesis by simp
qed

section \<open>The generate workflow: the outcome\<close>

text \<open>
  C3: when the request \<open>handleGenerate\<close> makes is resolved with a base64 string
  \<open>b\<close>, the edited image stored at the end is "data:image/png;base64," followed
  by \<open>b\<close>.
\<close>

theorem handleGenerate_success_editedImage:
  assumes "edit_requests (handleGenerate svc s) = [req]" and "svc req = Inr b"
  shows "editedImage (run s (handleGenerate svc s)) = Some (js ''data:image/png;base64,'' @ b)"
proof -
  from assms(1) obtain img where "originalImage s = Some img" and "prompt s \<noteq> []"
    and "req = generateRequest img s"
    by (rule edit_requests_single)
  with assms(2) show ?thesis
    by (simp add: handleGenerate_valid run_Cons run_Nil)
qed

theorem handleGenerate_success_editedImage_witness:
  "edit_requests (handleGenerate (resolveWith (js ''Zm9v'')) readyState)
     = [generateRequest sampleImage readyState]
   \<and> resolveWith (js ''Zm9v'') (generateRequest sampleImage readyState) = Inr (js ''Zm9v'')
   \<and> editedImage (run readyState (handleGenerate (resolveWith (js ''Zm9v'')) readyState))
       = Some (js ''data:image/png;base64,Zm9v'')"
proof -
  have r: "edit_requests (handleGenerate (resolveWith (js ''Zm9v'')) readyState)
             = [generateRequest sampleImage readyState]"
    by (simp add: edit_requests_handleGenerate readyState_def js_eq_Nil)
  have v: "resolveWith (js ''Zm9v'') (generateRequest sampleImage readyState) = Inr (js ''Zm9v'')"
    by (simp add: resolveWith_def)
  show ?thesis
    using r v handleGenerate_success_editedImage [OF r v] by (simp add: js_def)
qed

text \<open>
  C8, as the code has it: when the request \<open>handleGenerate\<close> makes is rejected, the
  stored error is "Generation failed: " followed by the message of the rejection
  when that is an instance of Error, and by "An unknown error occurred." for any
  other rejection.
\<close>

theorem handleGenerate_failure_error:
  assumes "edit_requests (handleGenerate svc s) = [req]" and "svc req = Inl e"
  shows "error (run s (handleGenerate svc s)) =
      Some (js ''Generation failed: '' @
            (case e of
               ErrorInstance message \<Rightarrow> message
             | NonError other \<Rightarrow> js ''An unknown error occurred.''))"
proof -
  from assms(1) obtain img where "originalImage s = Some img" and "prompt s \<noteq> []"
    and "req = generateRequest img s"
    by (rule edit_requests_single)
  with assms(2) show ?thesis
    by (simp add: handleGenerate_valid run_Cons run_Nil errorMessage_def)
qed

theorem handleGenerate_failure_error_witness:
  "edit_requests (handleGenerate (rejectWith (ErrorInstance (js ''quota exceeded''))) readyState)
     = [generateRequest sampleImage readyState]
   \<and> rejectWith (ErrorInstance (js ''quota exceeded'')) (generateRequest sampleImage readyState)
       = (Inl (ErrorInstance (js ''quota exceeded'')) :: js_thrown + jsstring)
   \<and> error (run readyState
               (handleGenerate (rejectWith (ErrorInstance (js ''quota exceeded''))) readyState))
       = Some (js ''Generation failed: quota exceeded'')"
proof -
  let ?svc = "rejectWith (ErrorInstance (js ''quota exceeded'')) :: edit_service"
  have r: "edit_requests (handleGenerate ?svc readyState) = [generateRequest sampleImage readyState]"
    by (simp add: edit_requests_handleGenerate readyState_def js_eq_Nil)
  have v: "?svc (generateRequest sampleImage readyState) = Inl (ErrorInstance (js ''quota exceeded''))"
    by (simp add: rejectWith_def)
  show ?thesis
    using r v handleGenerate_failure_error [OF r v] by (simp add: js_def)
qed

text \<open>
  C8, as stated, fails when the service rejects with a value that is not an
  instance of Error, here one carrying the text "quota exceeded": the stored error
  does not contain that text.
\<close>

theorem handleGenerate_failure_non_error_counterexample:
  "error (run readyState
            (handleGenerate (rejectWith (NonError (Some (js ''quota exceeded'')))) readyState))
     = Some (js ''Generation failed: An unknown error occurred.'')
   \<and> error (run readyState
            (handleGenerate (rejectWith (NonError (Some (js ''quota exceeded'')))) readyState))
     \<noteq> Some (js ''Generation failed: '' @ js ''quota exceeded'')"
  by (simp add: handleGenerate_def readyState_def rejectWith_def errorMessage_def run_def
                js_def jschar_def)

section \<open>The shape of the workflows\<close>

lemma handleImageUpload_file:
  assumes "target_files event = Some (file # others)"
  shows "handleImageUpload reader event =
     [SetIsLoading True, SetError None, SetEditedImage None, Await (FileToBase64 file)]
     @ (case fileToBase64 reader file of
          Inr img \<Rightarrow> [SetOriginalImage (Some \<lparr>dataUrl = dataUrl img, mimeType = mimeType img\<rparr>)]
        | Inl e \<Rightarrow> [SetError (Some (js ''Failed to read the image file.'')), ConsoleError])
     @ [SetIsLoading False]"
  using assms by (simp add: handleImageUpload_def selected_file_Some)

text \<open>
  C5: an upload of a selected file, and a generation attempt that passes
  validation, each make one request, and in the state reached just before that
  request the edited image is null, whatever the reader or the service answers
  afterwards.
\<close>

theorem editedImage_cleared_before_await:
  "(target_files event = Some (file # others) \<longrightarrow>
      requests (handleImageUpload reader event) = [FileToBase64 file]
      \<and> SetEditedImage None \<in> set (before_await (handleImageUpload reader event))
      \<and> editedImage (run s (before_await (handleImageUpload reader event))) = None)
   \<and> (originalImage s = Some img \<and> prompt s \<noteq> [] \<longrightarrow>
      requests (handleGenerate svc s) = [EditImageWithPrompt (generateRequest img s)]
      \<and> SetEditedImage None \<in> set (before_await (handleGenerate svc s))
      \<and> editedImage (run s (before_await (handleGenerate svc s))) = None)"
proof -
  have u: "requests (handleImageUpload reader event) = [FileToBase64 file]
      \<and> SetEditedImage None \<in> set (before_await (handleImageUpload reader event))
      \<and> editedImage (run s (before_await (handleImageUpload reader event))) = None"
    if "target_files event = Some (file # others)"
    using that
    by (simp add: handleImageUpload_file before_await_def run_Cons run_Nil requests_append
             split: sum.splits)
  have g: "requests (handleGenerate svc s) = [EditImageWithPrompt (generateRequest img s)]
      \<and> SetEditedImage None \<in> set (before_await (handleGenerate svc s))
      \<and> editedImage (run s (before_await (handleGenerate svc s))) = None"
    if "originalImage s = Some img" and "prompt s \<noteq> []"
    using that
    by (simp add: handleGenerate_valid before_await_def run_Cons run_Nil requests_append
             split: sum.splits)
  from u g show ?thesis by blast
qed

theorem editedImage_cleared_before_await_witness:
  "target_files \<lparr>target_files = Some [sampleFile]\<rparr> = Some (sampleFile # [])
   \<and> originalImage readyState = Some sampleImage \<and> prompt readyState \<noteq> []
   \<and> editedImage readyState = Some (js ''data:image/png;base64,T0xE'')
   \<and> editedImage (run readyState (before_await
        (handleImageUpload failingReader \<lparr>target_files = Some [sampleFile]\<rparr>))) = None
   \<and> editedImage (run readyState (before_await
        (handleGenerate (rejectWith (ErrorInstance (js ''quota exceeded''))) readyState))) = None"
  using editedImage_cleared_before_await
          [of "\<lparr>target_files = Some [sampleFile]\<rparr>" sampleFile "[]" failingReader
              readyState sampleImage "rejectWith (ErrorInstance (js ''quota exceeded''))"]
  by (simp add: readyState_def js_eq_Nil)

text \<open>
  C6: the initial load, an upload of a selected file and a generation attempt that
  passes validation all have the shape \<open>workflow_shape\<close>: before the first awaited
  request the error is cleared and \<open>isLoading\<close> is true, and the last effect sets
  \<open>isLoading\<close> to false, whether the awaited step resolves or rejects.
\<close>

theorem workflows_follow_shape:
  "workflow_shape s (loadInitialImage fetch reader)
   \<and> (target_files event = Some (file # others) \<longrightarrow>
        workflow_shape s (handleImageUpload reader event))
   \<and> (originalImage s = Some img \<and> prompt s \<noteq> [] \<longrightarrow>
        workflow_shape s (handleGenerate svc s))"
proof -
  have l: "workflow_shape s (loadInitialImage fetch reader)"
    by (simp add: workflow_shape_def loadInitialImage_def before_await_def run_Cons run_Nil
                  run_append split: sum.splits)
  have u: "workflow_shape s (handleImageUpload reader event)"
    if "target_files event = Some (file # others)"
    using that
    by (simp add: workflow_shape_def handleImageUpload_file before_await_def run_Cons run_Nil
                  run_append split: sum.splits)
  have g: "workflow_shape s (handleGenerate svc s)"
    if "originalImage s = Some img" and "prompt s \<noteq> []"
    using that
    by (simp add: workflow_shape_def handleGenerate_valid before_await_def run_Cons run_Nil
                  run_append split: sum.splits)
  from l u g show ?thesis by blast
qed

theorem workflows_follow_shape_witness:
  "target_files \<lparr>target_files = Some [sampleFile]\<rparr> = Some (sampleFile # [])
   \<and> originalImage readyState = Some sampleImage \<and> prompt readyState \<noteq> []
   \<and> workflow_shape readyState
        (loadInitialImage failingFetch failingReader)
   \<and> workflow_shape readyState
        (handleImageUpload failingReader \<lparr>target_files = Some [sampleFile]\<rparr>)
   \<and> workflow_shape readyState (handleGenerate (resolveWith (js ''Zm9v'')) readyState)"
  using workflows_follow_shape
          [of readyState failingFetch failingReader
              "\<lparr>target_files = Some [sampleFile]\<rparr>" sampleFile "[]"
              sampleImage "resolveWith (js ''Zm9v'')"]
  by (simp add: readyState_def js_eq_Nil)

section \<open>The initial load\<close>

text \<open>
  C7: when loading the example image fails (the fetch rejects, the response is not
  ok, or reading the blob fails), then at the end of the initial load
  \<open>isLoading\<close> is false, the error is the fixed message asking for an upload,
  whatever the rejection was, and the original image is untouched, hence null on
  startup.
\<close>

theorem loadInitialImage_failure:
  assumes "urlToDataUrl fetch reader initialImageUrl = Inl e"
  shows "isLoading (run s (loadInitialImage fetch reader)) = False
       \<and> error (run s (loadInitialImage fetch reader)) =
           Some (js ''Could not load the initial example image. Please try uploading your own.'')
       \<and> originalImage (run s (loadInitialImage fetch reader)) = originalImage s
       \<and> originalImage (run initialState (loadInitialImage fetch reader)) = None"
  using assms by (simp add: loadInitialImage_def run_Cons run_Nil initialState_def)

theorem loadInitialImage_failure_witness:
  "urlToDataUrl failingFetch failingReader initialImageUrl
     = Inl (ErrorInstance (js ''Failed to fetch''))
   \<and> urlToDataUrl notFoundFetch failingReader initialImageUrl
     = Inl (ErrorInstance (js ''Failed to fetch image from '' @ initialImageUrl))
   \<and> isLoading (run initialState (loadInitialImage failingFetch failingReader)) = False
   \<and> error (run initialState (loadInitialImage failingFetch failingReader)) =
           Some (js ''Could not load the initial example image. Please try uploading your own.'')
   \<and> originalImage (run initialState (loadInitialImage failingFetch failingReader)) = None
   \<and> isLoading (run initialState (loadInitialImage notFoundFetch failingReader)) = False
   \<and> error (run initialState (loadInitialImage notFoundFetch failingReader)) =
           Some (js ''Could not load the initial example image. Please try uploading your own.'')
   \<and> originalImage (run initialState (loadInitialImage notFoundFetch failingReader)) = None"
proof -
  have h1: "urlToDataUrl failingFetch failingReader initialImageUrl
              = Inl (ErrorInstance (js ''Failed to fetch''))"
    by (simp add: urlToDataUrl_def failingFetch_def rejectWith_def)
  have h2: "urlToDataUrl notFoundFetch failingReader initialImageUrl
              = Inl (ErrorInstance (js ''Failed to fetch image from '' @ initialImageUrl))"
    by (simp add: urlToDataUrl_def notFoundFetch_def resolveWith_def)
  show ?thesis
    using h1 h2 loadInitialImage_failure [OF h1, of initialState]
      loadInitialImage_failure [OF h2, of initialState]
    by (simp add: initialState_def)
qed

end
